theory Spec2Isabelle
  imports Complex_Main
begin

section \<open>JavaScript values and thrown errors\<close>

text \<open>
  The client is TypeScript. Payloads are modelled at their declared types (interfaces of
  \<^verbatim>\<open>lib/types.ts\<close> become records, string-literal unions become datatypes). Only the
  evaluation report is kept as an untyped JSON value, because \<^verbatim>\<open>EvaluationContent.run\<close>
  validates its shape at run time.
\<close>

datatype jsval =
    JUndefined
  | JNull
  | JBool bool
  | JNum real
  | JStr string
  | JArr "jsval list"
  | JObj "(string \<times> jsval) list"

text \<open>Truthiness, as tested by \<^verbatim>\<open>!x\<close> (a JSON number is never NaN).\<close>

fun truthy :: "jsval \<Rightarrow> bool" where
  "truthy JUndefined = False"
| "truthy JNull = False"
| "truthy (JBool b) = b"
| "truthy (JNum r) = (r \<noteq> 0)"
| "truthy (JStr s) = (s \<noteq> [])"
| "truthy (JArr xs) = True"
| "truthy (JObj ps) = True"

text \<open>
  Property read \<^verbatim>\<open>v.k\<close> for the property names the client reads from a report
  (none of them exists on a string, number, boolean or array). On \<^verbatim>\<open>null\<close> and
  \<^verbatim>\<open>undefined\<close> JavaScript throws; every read below is guarded by a test that
  \<^verbatim>\<open>v\<close> is neither, so that case is never reached and is given \<^verbatim>\<open>undefined\<close>.
\<close>

fun get_prop :: "jsval \<Rightarrow> string \<Rightarrow> jsval" where
  "get_prop (JObj ps) k = (case map_of ps k of Some v \<Rightarrow> v | None \<Rightarrow> JUndefined)"
| "get_prop v k = JUndefined"

text \<open>\<^verbatim>\<open>typeof v === "number"\<close>\<close>

fun typeof_number :: "jsval \<Rightarrow> bool" where
  "typeof_number (JNum r) = True"
| "typeof_number v = False"


text \<open>
  Thrown values. \<^verbatim>\<open>ApiError\<close> is the class of \<^verbatim>\<open>lib/api.ts\<close> (status, detail);
  \<^verbatim>\<open>DOMException\<close> and \<^verbatim>\<open>JsError\<close> carry the error's name and message
  (\<^verbatim>\<open>Error\<close>, \<^verbatim>\<open>TypeError\<close>, \<^verbatim>\<open>SyntaxError\<close>).
\<close>

datatype js_error =
    ApiError nat string
  | DOMException string string
  | JsError string string

text \<open>\<^verbatim>\<open>err.message\<close>: the constructor of \<^verbatim>\<open>ApiError\<close> calls \<^verbatim>\<open>super(detail)\<close>.\<close>

fun message :: "js_error \<Rightarrow> string" where
  "message (ApiError st d) = d"
| "message (DOMException n m) = m"
| "message (JsError n m) = m"

fun instanceof_ApiError :: "js_error \<Rightarrow> bool" where
  "instanceof_ApiError (ApiError st d) = True"
| "instanceof_ApiError e = False"

fun instanceof_DOMException :: "js_error \<Rightarrow> bool" where
  "instanceof_DOMException (DOMException n m) = True"
| "instanceof_DOMException e = False"

text \<open>Every thrown value of the model is an \<^verbatim>\<open>Error\<close> instance.\<close>

fun instanceof_Error :: "js_error \<Rightarrow> bool" where
  "instanceof_Error e = True"

fun error_name :: "js_error \<Rightarrow> string" where
  "error_name (ApiError st d) = ''ApiError''"
| "error_name (DOMException n m) = n"
| "error_name (JsError n m) = n"

fun error_status :: "js_error \<Rightarrow> nat option" where
  "error_status (ApiError st d) = Some st"
| "error_status e = None"

text \<open>Decimal rendering of a status code inside a template literal.\<close>

function show_nat :: "nat \<Rightarrow> string" where
  "show_nat n =
     (if n < 10 then [''0123456789'' ! n]
      else show_nat (n div 10) @ [''0123456789'' ! (n mod 10)])"
  by pat_completeness auto
termination
  by (relation "measure id") auto

declare show_nat.simps [simp del]

section \<open>The browser: token storage, network and \<^verbatim>\<open>fetch\<close>\<close>

type_synonym headers = "string \<rightharpoonup> string"

text \<open>\<^verbatim>\<open>RequestInit\<close>, as far as the client fills it; the body is the value handed to
  \<^verbatim>\<open>JSON.stringify\<close>.\<close>

record RequestInit =
  opt_method :: "string option"
  opt_body :: "jsval option"
  opt_headers :: "headers option"

text \<open>What \<^verbatim>\<open>fetch\<close> is called with.\<close>

record http_request =
  url :: string
  req_method :: "string option"
  req_headers :: headers
  req_body :: "jsval option"

text \<open>
  The browser state the client touches: the build-time environment variable, the
  \<^verbatim>\<open>localStorage\<close> and, as a ghost field, the log of the requests handed to
  \<^verbatim>\<open>fetch\<close> so far (oldest first). The code runs in the browser only
  (\<^verbatim>\<open>"use client"\<close>, effects and event handlers), so \<^verbatim>\<open>window\<close> is defined.
\<close>

record world =
  NEXT_PUBLIC_API_URL :: "string option"
  localStorage :: "string \<rightharpoonup> string"
  sent :: "http_request list"

text \<open>
  A parsed response body is read by the client in two ways: as the declared response type
  \<^verbatim>\<open>T\<close> (the unchecked cast \<^verbatim>\<open>as T\<close>) and through its \<^verbatim>\<open>detail\<close> property
  (absent, or \<^verbatim>\<open>null\<close>, is \<^verbatim>\<open>None\<close>).
\<close>

record 'a json_body =
  as_T :: 'a
  detail_field :: "string option"

text \<open>A response: its status and what \<^verbatim>\<open>res.json()\<close> settles with
  (\<^verbatim>\<open>Inl m\<close>: it rejects with a \<^verbatim>\<open>SyntaxError\<close> of message \<^verbatim>\<open>m\<close>).\<close>

record 'a response =
  res_status :: nat
  res_json :: "string + 'a json_body"

definition ok :: "'a response \<Rightarrow> bool" where
  "ok res = (200 \<le> res_status res \<and> res_status res \<le> 299)"

text \<open>
  What the network does with a request when left alone: it never answers, or after some
  milliseconds it delivers a response or fails (\<^verbatim>\<open>fetch\<close> then rejects with a
  \<^verbatim>\<open>TypeError\<close>). The answer may depend on everything sent before.
\<close>

datatype 'a net_outcome = Responds "'a response" | Unreachable string

datatype 'a net_reply = Never | After nat "'a net_outcome"

type_synonym 'a network = "http_request list \<Rightarrow> http_request \<Rightarrow> 'a net_reply"

text \<open>
  \<^verbatim>\<open>fetch(url, {signal})\<close> raced against \<^verbatim>\<open>setTimeout(() => controller.abort(), timeoutMs)\<close>:
  when the timer fires before the network has answered, the request is aborted and
  \<^verbatim>\<open>fetch\<close> rejects with the \<^verbatim>\<open>AbortError\<close> \<^verbatim>\<open>DOMException\<close>. An answer arriving at
  the very millisecond of the timer counts as late.
\<close>

definition abort_error :: js_error where
  "abort_error = DOMException ''AbortError'' ''signal is aborted without reason''"

fun timer_fires_first :: "nat \<Rightarrow> 'a net_reply \<Rightarrow> bool" where
  "timer_fires_first timeoutMs Never = True"
| "timer_fires_first timeoutMs (After t out) = (timeoutMs \<le> t)"

fun fetch :: "'a net_reply \<Rightarrow> nat \<Rightarrow> js_error + 'a response" where
  "fetch Never timeoutMs = Inl abort_error"
| "fetch (After t out) timeoutMs =
     (if timeoutMs \<le> t then Inl abort_error
      else (case out of
              Responds res \<Rightarrow> Inr res
            | Unreachable m \<Rightarrow> Inl (JsError ''TypeError'' m)))"

section \<open>\<^verbatim>\<open>lib/api.ts\<close>: the request client\<close>

definition API_BASE_URL :: "world \<Rightarrow> string" where
  "API_BASE_URL w =
     (case NEXT_PUBLIC_API_URL w of Some u \<Rightarrow> u | None \<Rightarrow> ''http://localhost:8000'')"

definition TOKEN_KEY :: string where
  "TOKEN_KEY = ''startbot_token''"

definition getToken :: "world \<Rightarrow> string option" where
  "getToken w = localStorage w TOKEN_KEY"

definition setToken :: "string \<Rightarrow> world \<Rightarrow> world" where
  "setToken token w = w\<lparr>localStorage := (localStorage w)(TOKEN_KEY \<mapsto> token)\<rparr>"

definition clearToken :: "world \<Rightarrow> world" where
  "clearToken w = w\<lparr>localStorage := (localStorage w)(TOKEN_KEY := None)\<rparr>"

text \<open>\<^verbatim>\<open>if (token)\<close>: \<^verbatim>\<open>null\<close> and the empty string are falsy.\<close>

fun token_truthy :: "string option \<Rightarrow> bool" where
  "token_truthy None = False"
| "token_truthy (Some t) = (t \<noteq> [])"

text \<open>The message of the error thrown on a timeout; the dash of the source is U+2014,
  written here as its three UTF-8 bytes.\<close>

definition timeout_message :: string where
  "timeout_message =
     ''Request timed out '' @ [CHR 0xE2, CHR 0x80, CHR 0x94]
       @ '' the server took too long to respond''"

definition timeout_error :: js_error where
  "timeout_error = JsError ''Error'' timeout_message"

text \<open>The headers and the request that \<^verbatim>\<open>request\<close> builds before calling \<^verbatim>\<open>fetch\<close>.\<close>

definition base_headers :: "RequestInit \<Rightarrow> headers" where
  "base_headers options =
     [''Content-Type'' \<mapsto> ''application/json'']
       ++ (case opt_headers options of Some h \<Rightarrow> h | None \<Rightarrow> Map.empty)"

definition build_headers :: "RequestInit \<Rightarrow> world \<Rightarrow> headers" where
  "build_headers options w =
     (let headers = base_headers options;
          token = getToken w
      in if token_truthy token
         then headers(''Authorization'' \<mapsto> ''Bearer '' @ the token)
         else headers)"

definition build_request :: "string \<Rightarrow> RequestInit \<Rightarrow> world \<Rightarrow> http_request" where
  "build_request path options w =
     \<lparr> url = API_BASE_URL w @ path,
       req_method = opt_method options,
       req_headers = build_headers options w,
       req_body = opt_body options \<rparr>"

definition default_detail :: "nat \<Rightarrow> string" where
  "default_detail st = ''Request failed with status '' @ show_nat st"

text \<open>\<^verbatim>\<open>detail = body.detail ?? detail\<close> inside a \<^verbatim>\<open>try\<close> whose \<^verbatim>\<open>catch\<close> is empty.\<close>

definition response_detail :: "'a response \<Rightarrow> string" where
  "response_detail res =
     (case res_json res of
        Inl m \<Rightarrow> default_detail (res_status res)
      | Inr body \<Rightarrow>
          (case detail_field body of
             Some d \<Rightarrow> d
           | None \<Rightarrow> default_detail (res_status res)))"

text \<open>
  \<^verbatim>\<open>async function request<T>(path, options = {}, timeoutMs = 120_000)\<close>.
  The result is \<^verbatim>\<open>Inl\<close> of the thrown error or \<^verbatim>\<open>Inr\<close> of the decoded data, together
  with the browser state after the call. Console logging is left out.
\<close>

definition request ::
  "'a network \<Rightarrow> string \<Rightarrow> RequestInit \<Rightarrow> nat \<Rightarrow> world \<Rightarrow> (js_error + 'a) \<times> world" where
  "request net path options timeoutMs w =
     (let req = build_request path options w;
          w1 = w\<lparr>sent := sent w @ [req]\<rparr>
      in case fetch (net (sent w) req) timeoutMs of
           Inl networkErr \<Rightarrow>
             if instanceof_DOMException networkErr \<and> error_name networkErr = ''AbortError''
             then (Inl timeout_error, w1)
             else (Inl networkErr, w1)
         | Inr res \<Rightarrow>
             if \<not> ok res then
               (let detail = response_detail res;
                    w2 = (if res_status res = 401 then clearToken w1 else w1)
                in (Inl (ApiError (res_status res) detail), w2))
             else
               (case res_json res of
                  Inl m \<Rightarrow> (Inl (JsError ''SyntaxError'' m), w1)
                | Inr body \<Rightarrow> (Inr (as_T body), w1)))"

definition default_timeoutMs :: nat where
  "default_timeoutMs = 120000"

definition no_options :: RequestInit where
  "no_options = \<lparr> opt_method = None, opt_body = None, opt_headers = None \<rparr>"

definition post_options :: "jsval option \<Rightarrow> RequestInit" where
  "post_options b = \<lparr> opt_method = Some ''POST'', opt_body = b, opt_headers = None \<rparr>"


subsection \<open>Response types of \<^verbatim>\<open>lib/types.ts\<close>\<close>

datatype AuthProviderKind = Local | Google

record UserPublic =
  user_id :: string
  email :: string
  username :: string
  auth_provider :: AuthProviderKind
  is_email_verified :: bool

record AuthResponse =
  access_token :: string
  token_type :: string
  auth_user :: UserPublic

text \<open>\<^verbatim>\<open>"pending" | "completed" | "failed"\<close> (market research, pitch deck) and
  \<^verbatim>\<open>"pending" | "generated" | "failed"\<close> (MVP report, legal document).\<close>

datatype RecordStatus = Pending | Completed | Failed

datatype DocStatus = DocPending | Generated | DocFailed

text \<open>The fields after \<^verbatim>\<open>status\<close> (market sizes, confidence, sources, competitors,
  creation date) are only stored and displayed; they are kept as one JSON value.\<close>

record MarketResearchRecord =
  mr_id :: string
  mr_idea_id :: string
  mr_status :: RecordStatus
  mr_figures :: jsval

record PitchDeckRecord =
  pd_id :: string
  pd_idea_id :: string
  pd_status :: RecordStatus
  pd_rest :: jsval

record MVPReportRecord =
  mvp_id :: string
  mvp_idea_id :: string
  mvp_status :: DocStatus
  mvp_blueprint :: "jsval option"

record LegalDocumentRecord =
  doc_id :: string
  doc_idea_id :: string
  document_type :: string
  jurisdiction :: "string option"
  doc_status :: DocStatus
  document :: "jsval option"
  created_at :: string

text \<open>\<^verbatim>\<open>records\<close> is \<^verbatim>\<open>None\<close> when the property is missing or \<^verbatim>\<open>null\<close>, the case
  \<^verbatim>\<open>res.records || []\<close> provides for.\<close>

record LegalDocumentListResponse =
  records :: "LegalDocumentRecord list option"

subsection \<open>Exported operations\<close>

definition login ::
  "AuthResponse network \<Rightarrow> string \<Rightarrow> string \<Rightarrow> world \<Rightarrow> (js_error + AuthResponse) \<times> world" where
  "login net em password w =
     (case request net ''/auth/login''
             (post_options (Some (JObj [(''email'', JStr em), (''password'', JStr password)])))
             default_timeoutMs w of
        (Inl err, w1) \<Rightarrow> (Inl err, w1)
      | (Inr data, w1) \<Rightarrow> (Inr data, setToken (access_token data) w1))"

definition getMe :: "UserPublic network \<Rightarrow> world \<Rightarrow> (js_error + UserPublic) \<times> world" where
  "getMe net w = request net ''/auth/me'' no_options default_timeoutMs w"

definition getEvaluation :: "jsval network \<Rightarrow> string \<Rightarrow> world \<Rightarrow> (js_error + jsval) \<times> world" where
  "getEvaluation net ideaId w =
     request net (''/ideas/'' @ ideaId @ ''/evaluation'') no_options default_timeoutMs w"

definition evaluateIdea :: "jsval network \<Rightarrow> string \<Rightarrow> world \<Rightarrow> (js_error + jsval) \<times> world" where
  "evaluateIdea net ideaId w =
     request net (''/ideas/'' @ ideaId @ ''/evaluate'') (post_options None) default_timeoutMs w"

definition generateMarketResearch ::
  "MarketResearchRecord network \<Rightarrow> string \<Rightarrow> world
     \<Rightarrow> (js_error + MarketResearchRecord) \<times> world" where
  "generateMarketResearch net ideaId w =
     request net (''/market-research/generate?idea_id='' @ ideaId) (post_options None)
       default_timeoutMs w"

definition getMarketResearchByIdea ::
  "MarketResearchRecord network \<Rightarrow> string \<Rightarrow> world
     \<Rightarrow> (js_error + MarketResearchRecord) \<times> world" where
  "getMarketResearchByIdea net ideaId w =
     request net (''/market-research/idea/'' @ ideaId) no_options default_timeoutMs w"

definition getPitchDeckByIdea ::
  "PitchDeckRecord network \<Rightarrow> string \<Rightarrow> world \<Rightarrow> (js_error + PitchDeckRecord) \<times> world" where
  "getPitchDeckByIdea net ideaId w =
     request net (''/pitch-deck/idea/'' @ ideaId) no_options default_timeoutMs w"

definition getMVPByIdea ::
  "MVPReportRecord network \<Rightarrow> string \<Rightarrow> world \<Rightarrow> (js_error + MVPReportRecord) \<times> world" where
  "getMVPByIdea net ideaId w =
     request net (''/mvp/idea/'' @ ideaId) no_options default_timeoutMs w"

text \<open>\<^verbatim>\<open>GenerateLegalRequest\<close>; the callers of this client fill \<^verbatim>\<open>document_type\<close> only.\<close>

record GenerateLegalRequest =
  glr_document_type :: string

definition generateLegalDocument ::
  "LegalDocumentRecord network \<Rightarrow> string \<Rightarrow> GenerateLegalRequest \<Rightarrow> world
     \<Rightarrow> (js_error + LegalDocumentRecord) \<times> world" where
  "generateLegalDocument net ideaId body w =
     request net (''/legal/generate?idea_id='' @ ideaId)
       (post_options (Some (JObj [(''document_type'', JStr (glr_document_type body))])))
       default_timeoutMs w"

definition getLegalByIdea ::
  "LegalDocumentListResponse network \<Rightarrow> string \<Rightarrow> world
     \<Rightarrow> (js_error + LegalDocumentListResponse) \<times> world" where
  "getLegalByIdea net ideaId w =
     request net (''/legal/idea/'' @ ideaId) no_options default_timeoutMs w"

section \<open>\<^verbatim>\<open>lib/auth-context.tsx\<close>: the session context\<close>

record auth_state =
  user :: "UserPublic option"
  loading :: bool
  mounted :: bool

definition auth_initial :: auth_state where
  "auth_initial = \<lparr> user = None, loading = True, mounted = False \<rparr>"

definition refresh :: "UserPublic network \<Rightarrow> auth_state \<Rightarrow> world \<Rightarrow> auth_state \<times> world" where
  "refresh net s w =
     (let token = getToken w
      in if \<not> token_truthy token then (s\<lparr>user := None, loading := False\<rparr>, w)
         else (case getMe net w of
                 (Inr me, w1) \<Rightarrow> (s\<lparr>user := Some me, loading := False\<rparr>, w1)
               | (Inl err, w1) \<Rightarrow> (s\<lparr>user := None, loading := False\<rparr>, clearToken w1)))"

definition loginFn :: "string \<Rightarrow> UserPublic \<Rightarrow> auth_state \<Rightarrow> world \<Rightarrow> auth_state \<times> world" where
  "loginFn token userData s w = (s\<lparr>user := Some userData\<rparr>, setToken token w)"

definition logout :: "auth_state \<Rightarrow> world \<Rightarrow> auth_state \<times> world" where
  "logout s w = (s\<lparr>user := None\<rparr>, clearToken w)"

section \<open>\<^verbatim>\<open>components/auth/route-guard.tsx\<close>\<close>

text \<open>What a render of \<^verbatim>\<open>RouteGuard\<close> returns, and the target of \<^verbatim>\<open>router.replace\<close>
  when its effect calls it.\<close>

datatype 'c element = Placeholder | Null | Children 'c

record 'c guard_output =
  rendered :: "'c element"
  replaced :: "string option"

definition RouteGuard :: "auth_state \<Rightarrow> 'c \<Rightarrow> 'c guard_output" where
  "RouteGuard auth children =
     \<lparr> rendered =
         (if loading auth then Placeholder
          else if user auth = None then Null
          else Children children),
       replaced =
         (if \<not> loading auth \<and> user auth = None then Some ''/auth/login'' else None) \<rparr>"


section \<open>The evaluation screen (\<^verbatim>\<open>EvaluationContent\<close>)\<close>

text \<open>\<^verbatim>\<open>type Status = "idle" | "loading" | "success" | "error"\<close>\<close>

datatype EvalStatus = EvIdle | EvLoading | EvSuccess | EvError

record eval_state =
  ev_status :: EvalStatus
  ev_report :: "jsval option"
  ev_error :: "string option"
  hasMR :: "bool option"
  hasPD :: "bool option"
  hasMVP :: "bool option"
  mvpGateOpen :: bool

definition eval_initial :: eval_state where
  "eval_initial =
     \<lparr> ev_status = EvLoading, ev_report = None, ev_error = None,
       hasMR = None, hasPD = None, hasMVP = None, mvpGateOpen = False \<rparr>"

text \<open>The shape test of \<^verbatim>\<open>run\<close>:
  \<^verbatim>\<open>!data || !data.module_scores || typeof data.module_scores.final_viability_score !== "number"\<close>.\<close>

definition invalid_report :: "jsval \<Rightarrow> bool" where
  "invalid_report data =
     (\<not> truthy data \<or> \<not> truthy (get_prop data ''module_scores'')
      \<or> \<not> typeof_number (get_prop (get_prop data ''module_scores'') ''final_viability_score''))"

definition invalid_report_message :: string where
  "invalid_report_message =
     ''Invalid evaluation response '' @ [CHR 0xE2, CHR 0x80, CHR 0x94]
       @ '' missing module_scores or final_viability_score''"

text \<open>
  The inner \<^verbatim>\<open>try\<close> of \<^verbatim>\<open>run\<close>: read the stored evaluation; on an \<^verbatim>\<open>ApiError\<close> of
  status 404 run the evaluation (POST); rethrow anything else.
\<close>

definition load_or_evaluate ::
  "jsval network \<Rightarrow> string \<Rightarrow> world \<Rightarrow> (js_error + jsval) \<times> world" where
  "load_or_evaluate net ideaId w =
     (case getEvaluation net ideaId w of
        (Inr data, w1) \<Rightarrow> (Inr data, w1)
      | (Inl getErr, w1) \<Rightarrow>
          if instanceof_ApiError getErr \<and> error_status getErr = Some 404
          then evaluateIdea net ideaId w1
          else (Inl getErr, w1))"

text \<open>
  \<^verbatim>\<open>run\<close>. The flag \<^verbatim>\<open>active\<close> is read only after the calls have settled; the parameter
  is its value at that moment (the cleanup of the effect sets it to \<^verbatim>\<open>false\<close>).
\<close>

definition run ::
  "jsval network \<Rightarrow> string \<Rightarrow> bool \<Rightarrow> eval_state \<Rightarrow> world \<Rightarrow> eval_state \<times> world" where
  "run net ideaId active s w =
     (let s1 = s\<lparr>ev_status := EvLoading, ev_error := None\<rparr>;
          (r, w1) = load_or_evaluate net ideaId w;
          checked = (case r of
                       Inl err \<Rightarrow> Inl err
                     | Inr data \<Rightarrow>
                         if invalid_report data
                         then Inl (JsError ''Error'' invalid_report_message)
                         else Inr data)
      in case checked of
           Inr data \<Rightarrow>
             (if active then s1\<lparr>ev_report := Some data, ev_status := EvSuccess\<rparr> else s1, w1)
         | Inl err \<Rightarrow>
             (if active
              then s1\<lparr>ev_error :=
                          Some (if instanceof_Error err then message err
                                else ''Evaluation failed''),
                       ev_status := EvError\<rparr>
              else s1, w1))"

text \<open>The effect that starts \<^verbatim>\<open>run\<close> (an absent idea id is the empty string).\<close>

definition evaluation_effect ::
  "jsval network \<Rightarrow> string \<Rightarrow> bool \<Rightarrow> eval_state \<Rightarrow> world \<Rightarrow> eval_state \<times> world" where
  "evaluation_effect net ideaId active s w =
     (if ideaId = [] then (s\<lparr>ev_error := Some ''Missing idea ID'', ev_status := EvError\<rparr>, w)
      else run net ideaId active s w)"





subsection \<open>Agent status checks and the MVP button\<close>



definition check_pitch_deck ::
  "PitchDeckRecord network \<Rightarrow> string \<Rightarrow> eval_state \<Rightarrow> world \<Rightarrow> eval_state \<times> world" where
  "check_pitch_deck net ideaId s w =
     (if ideaId = [] then (s, w)
      else (case getPitchDeckByIdea net ideaId w of
              (Inr r, w1) \<Rightarrow> (s\<lparr>hasPD := Some (pd_status r = Completed)\<rparr>, w1)
            | (Inl err, w1) \<Rightarrow> (s\<lparr>hasPD := Some False\<rparr>, w1)))"

definition check_mvp ::
  "MVPReportRecord network \<Rightarrow> string \<Rightarrow> eval_state \<Rightarrow> world \<Rightarrow> eval_state \<times> world" where
  "check_mvp net ideaId s w =
     (if ideaId = [] then (s, w)
      else (case getMVPByIdea net ideaId w of
              (Inr r, w1) \<Rightarrow> (s\<lparr>hasMVP := Some (mvp_status r = Generated)\<rparr>, w1)
            | (Inl err, w1) \<Rightarrow> (s\<lparr>hasMVP := Some False\<rparr>, w1)))"






section \<open>The market research screen (\<^verbatim>\<open>MarketResearchContent\<close>)\<close>

text \<open>\<^verbatim>\<open>type Status = "idle" | "loading" | "generating" | "success" | "error"\<close>\<close>

datatype Status = Idle | Loading | Generating | Success | Error

record mr_state =
  status :: Status
  research :: "MarketResearchRecord option"
  error :: "string option"

definition mr_initial :: mr_state where
  "mr_initial = \<lparr> status = Loading, research = None, error = None \<rparr>"

text \<open>\<^verbatim>\<open>err.detail\<close>, read only behind \<^verbatim>\<open>err instanceof ApiError\<close>.\<close>

fun error_detail :: "js_error \<Rightarrow> string" where
  "error_detail (ApiError st d) = d"
| "error_detail e = []"

text \<open>
  \<^verbatim>\<open>load\<close> is an asynchronous function with one \<^verbatim>\<open>await\<close>: the part before it, the
  call, and the part after it (which reads the flag \<^verbatim>\<open>active\<close>).
\<close>

definition load_begin :: "mr_state \<Rightarrow> mr_state" where
  "load_begin s = s\<lparr>status := Loading, error := None\<rparr>"

definition load_settle :: "bool \<Rightarrow> js_error + MarketResearchRecord \<Rightarrow> mr_state \<Rightarrow> mr_state" where
  "load_settle active r s =
     (case r of
        Inr data \<Rightarrow>
          if active
          then s\<lparr>research := Some data,
                 status := (if mr_status data = Completed then Success else Idle)\<rparr>
          else s
      | Inl err \<Rightarrow>
          if active
          then (if instanceof_ApiError err \<and> error_status err = Some 404
                then s\<lparr>status := Idle\<rparr>
                else s\<lparr>error := Some (if instanceof_Error err then message err
                                        else ''Failed to load research''),
                       status := Error\<rparr>)
          else s)"

definition load ::
  "MarketResearchRecord network \<Rightarrow> string \<Rightarrow> bool \<Rightarrow> mr_state \<Rightarrow> world \<Rightarrow> mr_state \<times> world" where
  "load net ideaId active s w =
     (case getMarketResearchByIdea net ideaId w of
        (r, w1) \<Rightarrow> (load_settle active r (load_begin s), w1))"

definition market_research_effect ::
  "MarketResearchRecord network \<Rightarrow> string \<Rightarrow> bool \<Rightarrow> mr_state \<Rightarrow> world \<Rightarrow> mr_state \<times> world" where
  "market_research_effect net ideaId active s w =
     (if ideaId = [] then (s\<lparr>error := Some ''Missing idea ID'', status := Error\<rparr>, w)
      else load net ideaId active s w)"

text \<open>\<^verbatim>\<open>handleGenerate\<close>, split at its \<^verbatim>\<open>await\<close> in the same way.\<close>

definition handleGenerate_begin :: "mr_state \<Rightarrow> mr_state" where
  "handleGenerate_begin s = s\<lparr>status := Generating, error := None\<rparr>"

definition handleGenerate_settle :: "js_error + MarketResearchRecord \<Rightarrow> mr_state \<Rightarrow> mr_state" where
  "handleGenerate_settle r s =
     (case r of
        Inr data \<Rightarrow> s\<lparr>research := Some data, status := Success\<rparr>
      | Inl err \<Rightarrow>
          s\<lparr>error := Some (if instanceof_ApiError err then error_detail err
                            else if instanceof_Error err then message err
                            else ''Market research generation failed.''),
            status := Error\<rparr>)"

definition handleGenerate ::
  "MarketResearchRecord network \<Rightarrow> string \<Rightarrow> mr_state \<Rightarrow> world \<Rightarrow> mr_state \<times> world" where
  "handleGenerate net ideaId s w =
     (case generateMarketResearch net ideaId w of
        (r, w1) \<Rightarrow> (handleGenerate_settle r (handleGenerate_begin s), w1))"

text \<open>
  The returns of the component, in the order of the source: two spinners, the error panel,
  the card offering generation, the report.
\<close>

datatype mr_view =
    LoadingSpinner
  | GeneratingSpinner
  | ErrorPanel "string option"
  | GenerateCard
  | ResearchReport MarketResearchRecord

definition MarketResearchContent_view :: "mr_state \<Rightarrow> mr_view" where
  "MarketResearchContent_view s =
     (if status s = Loading then LoadingSpinner
      else if status s = Generating then GeneratingSpinner
      else if status s = Error then ErrorPanel (error s)
      else (case research s of
              None \<Rightarrow> GenerateCard
            | Some r \<Rightarrow>
                if status s = Idle \<or> mr_status r \<noteq> Completed then GenerateCard
                else ResearchReport r))"

text \<open>The buttons of each view whose \<^verbatim>\<open>onClick\<close> is \<^verbatim>\<open>handleGenerate\<close>, by label. No
  element of any view calls \<^verbatim>\<open>load\<close>: only the effect does.\<close>

fun generate_buttons :: "mr_view \<Rightarrow> string list" where
  "generate_buttons LoadingSpinner = []"
| "generate_buttons GeneratingSpinner = []"
| "generate_buttons (ErrorPanel e) = [''Try Again'']"
| "generate_buttons GenerateCard = [''Generate Market Research'']"
| "generate_buttons (ResearchReport r) = [''Regenerate'']"

subsection \<open>The mounted screen as a reactive system\<close>

text \<open>
  Between mount and unmount (so \<^verbatim>\<open>active\<close> is \<^verbatim>\<open>true\<close>) the screen reacts to clicks on
  the buttons it currently shows and to the settling of the calls it has started. The two
  counters are ghost state: the calls started and not yet settled.
\<close>

datatype mr_event =
    Click string
  | LoadSettles "js_error + MarketResearchRecord"
  | GenerateSettles "js_error + MarketResearchRecord"

record mr_screen =
  ui :: mr_state
  loads_in_flight :: nat
  generates_in_flight :: nat

text \<open>On mount the effect calls \<^verbatim>\<open>load\<close>, which runs up to its \<^verbatim>\<open>await\<close>.\<close>

definition mr_mounted :: mr_screen where
  "mr_mounted = \<lparr> ui = load_begin mr_initial, loads_in_flight = 1, generates_in_flight = 0 \<rparr>"

fun mr_step :: "mr_screen \<Rightarrow> mr_event \<Rightarrow> mr_screen" where
  "mr_step sc (Click label) =
     (if label \<in> set (generate_buttons (MarketResearchContent_view (ui sc)))
      then sc\<lparr>ui := handleGenerate_begin (ui sc),
              generates_in_flight := Suc (generates_in_flight sc)\<rparr>
      else sc)"
| "mr_step sc (LoadSettles r) =
     (if loads_in_flight sc = 0 then sc
      else sc\<lparr>ui := load_settle True r (ui sc),
              loads_in_flight := loads_in_flight sc - 1\<rparr>)"
| "mr_step sc (GenerateSettles r) =
     (if generates_in_flight sc = 0 then sc
      else sc\<lparr>ui := handleGenerate_settle r (ui sc),
              generates_in_flight := generates_in_flight sc - 1\<rparr>)"

definition mr_after :: "mr_event list \<Rightarrow> mr_screen" where
  "mr_after events = foldl mr_step mr_mounted events"

text \<open>At most one call of the screen is in flight, and the status says which.\<close>

definition mr_exclusive :: "mr_screen \<Rightarrow> bool" where
  "mr_exclusive sc =
     (loads_in_flight sc + generates_in_flight sc \<le> 1
      \<and> (loads_in_flight sc = 1 \<longrightarrow> status (ui sc) = Loading)
      \<and> (generates_in_flight sc = 1 \<longrightarrow> status (ui sc) = Generating))"

section \<open>The legal documents screen (\<^verbatim>\<open>LegalContent\<close>)\<close>

record legal_state =
  legal_status :: Status
  documents :: "LegalDocumentRecord list"
  selectedDoc :: "LegalDocumentRecord option"
  legal_error :: "string option"
  generating :: "string option"

definition legal_initial :: legal_state where
  "legal_initial =
     \<lparr> legal_status = Loading, documents = [], selectedDoc = None,
       legal_error = None, generating = None \<rparr>"

text \<open>\<^verbatim>\<open>fetchDocs\<close>: the call and the part after its \<^verbatim>\<open>await\<close>.\<close>

definition fetchDocs_settle ::
  "js_error + LegalDocumentListResponse \<Rightarrow> legal_state \<Rightarrow> legal_state" where
  "fetchDocs_settle r s =
     (case r of
        Inr res \<Rightarrow>
          s\<lparr>documents := (case records res of Some rs \<Rightarrow> rs | None \<Rightarrow> []),
            legal_status := Success\<rparr>
      | Inl err \<Rightarrow>
          if instanceof_ApiError err \<and> error_status err = Some 404
          then s\<lparr>documents := [], legal_status := Success\<rparr>
          else s\<lparr>legal_error := Some (if instanceof_Error err then message err
                                        else ''Failed to load documents''),
                 legal_status := Error\<rparr>)"

definition fetchDocs ::
  "LegalDocumentListResponse network \<Rightarrow> string \<Rightarrow> legal_state \<Rightarrow> world
     \<Rightarrow> legal_state \<times> world" where
  "fetchDocs net ideaId s w =
     (if ideaId = [] then (s, w)
      else (case getLegalByIdea net ideaId w of
              (r, w1) \<Rightarrow> (fetchDocs_settle r s, w1)))"

text \<open>The state updater of \<^verbatim>\<open>handleGenerate\<close>:
  \<^verbatim>\<open>prev => [result, ...prev.filter((d) => d.document_type !== result.document_type)]\<close>.\<close>

definition replace_document ::
  "LegalDocumentRecord \<Rightarrow> LegalDocumentRecord list \<Rightarrow> LegalDocumentRecord list" where
  "replace_document result prev =
     result # filter (\<lambda>d. document_type d \<noteq> document_type result) prev"

text \<open>\<^verbatim>\<open>handleGenerate(docTypeKey)\<close>: before the \<^verbatim>\<open>await\<close>, and after it (the
  \<^verbatim>\<open>finally\<close> clause resets \<^verbatim>\<open>generating\<close> on both exits).\<close>

definition legal_handleGenerate_begin :: "string \<Rightarrow> legal_state \<Rightarrow> legal_state" where
  "legal_handleGenerate_begin docTypeKey s = s\<lparr>generating := Some docTypeKey, legal_error := None\<rparr>"

definition legal_handleGenerate_settle ::
  "js_error + LegalDocumentRecord \<Rightarrow> legal_state \<Rightarrow> legal_state" where
  "legal_handleGenerate_settle r s =
     (case r of
        Inr result \<Rightarrow>
          s\<lparr>documents := replace_document result (documents s),
            selectedDoc := Some result,
            generating := None\<rparr>
      | Inl err \<Rightarrow>
          s\<lparr>legal_error := Some (if instanceof_Error err then message err
                                  else ''Generation failed. Please try again.''),
            generating := None\<rparr>)"

definition legal_handleGenerate ::
  "LegalDocumentRecord network \<Rightarrow> string \<Rightarrow> string \<Rightarrow> legal_state \<Rightarrow> world
     \<Rightarrow> legal_state \<times> world" where
  "legal_handleGenerate net ideaId docTypeKey s w =
     (case generateLegalDocument net ideaId \<lparr> glr_document_type = docTypeKey \<rparr> w of
        (r, w1) \<Rightarrow>
          (legal_handleGenerate_settle r (legal_handleGenerate_begin docTypeKey s), w1))"

definition getDocByType :: "legal_state \<Rightarrow> string \<Rightarrow> LegalDocumentRecord option" where
  "getDocByType s key =
     find (\<lambda>d. document_type d = key \<and> doc_status d = Generated) (documents s)"

text \<open>The keys of \<^verbatim>\<open>DOCUMENT_TYPES\<close>.\<close>

definition DOCUMENT_TYPES :: "string list" where
  "DOCUMENT_TYPES = [''nda'', ''founder_agreement'', ''privacy_policy'', ''terms_of_service'']"

text \<open>The returns of the component: the spinner, the full-page error, and the page with
  one card per document type. A card is disabled while \<^verbatim>\<open>generating\<close> is its key.\<close>

datatype legal_view = LegalSpinner | LegalErrorPage "string option" | DocumentCards

definition LegalContent_view :: "legal_state \<Rightarrow> legal_view" where
  "LegalContent_view s =
     (if legal_status s = Loading then LegalSpinner
      else if legal_status s = Error \<and> documents s = [] then LegalErrorPage (legal_error s)
      else DocumentCards)"

definition card_disabled :: "legal_state \<Rightarrow> string \<Rightarrow> bool" where
  "card_disabled s key = (generating s = Some key)"

subsection \<open>The mounted screen as a reactive system\<close>

text \<open>
  As for the market research screen. A click on an enabled card selects the existing
  document of that type or, if there is none, calls \<^verbatim>\<open>handleGenerate\<close>, which runs up to
  its \<^verbatim>\<open>await\<close>. The ghost field lists the keys of the generate calls in flight.
\<close>

datatype legal_event =
    CardClick string
  | DocsSettle "js_error + LegalDocumentListResponse"
  | DocumentSettles string "js_error + LegalDocumentRecord"

record legal_screen =
  legal_ui :: legal_state
  fetches_in_flight :: nat
  documents_in_flight :: "string list"

definition legal_mounted :: legal_screen where
  "legal_mounted =
     \<lparr> legal_ui = legal_initial, fetches_in_flight = 1, documents_in_flight = [] \<rparr>"

fun legal_step :: "legal_screen \<Rightarrow> legal_event \<Rightarrow> legal_screen" where
  "legal_step sc (CardClick key) =
     (if LegalContent_view (legal_ui sc) = DocumentCards \<and> key \<in> set DOCUMENT_TYPES
         \<and> \<not> card_disabled (legal_ui sc) key
      then (case getDocByType (legal_ui sc) key of
              Some existing \<Rightarrow> sc\<lparr>legal_ui := (legal_ui sc)\<lparr>selectedDoc := Some existing\<rparr>\<rparr>
            | None \<Rightarrow>
                sc\<lparr>legal_ui := legal_handleGenerate_begin key (legal_ui sc),
                   documents_in_flight := documents_in_flight sc @ [key]\<rparr>)
      else sc)"
| "legal_step sc (DocsSettle r) =
     (if fetches_in_flight sc = 0 then sc
      else sc\<lparr>legal_ui := fetchDocs_settle r (legal_ui sc),
              fetches_in_flight := fetches_in_flight sc - 1\<rparr>)"
| "legal_step sc (DocumentSettles key r) =
     (if key \<notin> set (documents_in_flight sc) then sc
      else sc\<lparr>legal_ui := legal_handleGenerate_settle r (legal_ui sc),
              documents_in_flight := remove1 key (documents_in_flight sc)\<rparr>)"

definition legal_after :: "legal_event list \<Rightarrow> legal_screen" where
  "legal_after events = foldl legal_step legal_mounted events"

section \<open>Example inputs\<close>

text \<open>A browser that holds a token, and networks with a fixed behaviour.\<close>

definition example_world :: world where
  "example_world =
     \<lparr> NEXT_PUBLIC_API_URL = None,
       localStorage = [TOKEN_KEY \<mapsto> ''old-token''],
       sent = [] \<rparr>"

text \<open>A server that answers after 130 seconds.\<close>

definition slow_net :: "jsval network" where
  "slow_net history req =
     After 130000 (Responds \<lparr> res_status = 200,
                               res_json = Inr \<lparr> as_T = JNull, detail_field = None \<rparr> \<rparr>)"

text \<open>A server that answers every request with 401 and an HTML page.\<close>

text \<open>A server that never answers.\<close>

definition stalled_net :: "UserPublic network" where
  "stalled_net history req = Never"

definition expired_net :: "UserPublic network" where
  "expired_net history req =
     After 5 (Responds \<lparr> res_status = 401, res_json = Inl ''Unexpected token <'' \<rparr>)"

definition rejecting_net :: "AuthResponse network" where
  "rejecting_net history req =
     After 5 (Responds \<lparr> res_status = 401, res_json = Inl ''Unexpected token <'' \<rparr>)"

definition down_net :: "AuthResponse network" where
  "down_net history req = After 3 (Unreachable ''Failed to fetch'')"

definition example_auth :: AuthResponse where
  "example_auth =
     \<lparr> access_token = ''fresh-token'', token_type = ''bearer'',
       auth_user = \<lparr> user_id = ''u1'', email = ''ann@example.org'', username = ''ann'',
                     auth_provider = Local, is_email_verified = True \<rparr> \<rparr>"

definition granting_net :: "AuthResponse network" where
  "granting_net history req =
     After 40 (Responds \<lparr> res_status = 200,
                           res_json = Inr \<lparr> as_T = example_auth, detail_field = None \<rparr> \<rparr>)"

text \<open>A browser without a token, a user, and a server that knows the user.\<close>

definition fresh_world :: world where
  "fresh_world = \<lparr> NEXT_PUBLIC_API_URL = None, localStorage = Map.empty, sent = [] \<rparr>"

definition example_user :: UserPublic where
  "example_user =
     \<lparr> user_id = ''u1'', email = ''ann@example.org'', username = ''ann'',
       auth_provider = Local, is_email_verified = True \<rparr>"

definition profile_net :: "UserPublic network" where
  "profile_net history req =
     After 20 (Responds \<lparr> res_status = 200,
                           res_json = Inr \<lparr> as_T = example_user, detail_field = None \<rparr> \<rparr>)"

text \<open>Market research records, legal documents, and servers that return them.\<close>

definition completed_research :: MarketResearchRecord where
  "completed_research =
     \<lparr> mr_id = ''r1'', mr_idea_id = ''abc123'', mr_status = Completed, mr_figures = JNull \<rparr>"


definition research_net :: "MarketResearchRecord \<Rightarrow> MarketResearchRecord network" where
  "research_net rec history req =
     After 25 (Responds \<lparr> res_status = 200,
                           res_json = Inr \<lparr> as_T = rec, detail_field = None \<rparr> \<rparr>)"

definition old_nda :: LegalDocumentRecord where
  "old_nda =
     \<lparr> doc_id = ''d1'', doc_idea_id = ''abc123'', document_type = ''nda'',
       jurisdiction = None, doc_status = DocFailed, document = None,
       created_at = ''2025-01-01'' \<rparr>"

definition old_privacy :: LegalDocumentRecord where
  "old_privacy =
     \<lparr> doc_id = ''d2'', doc_idea_id = ''abc123'', document_type = ''privacy_policy'',
       jurisdiction = None, doc_status = Generated, document = Some JNull,
       created_at = ''2025-01-02'' \<rparr>"

definition new_nda :: LegalDocumentRecord where
  "new_nda =
     \<lparr> doc_id = ''d3'', doc_idea_id = ''abc123'', document_type = ''nda'',
       jurisdiction = None, doc_status = Generated, document = Some JNull,
       created_at = ''2025-01-03'' \<rparr>"

definition drafting_net :: "LegalDocumentRecord network" where
  "drafting_net history req =
     After 900 (Responds \<lparr> res_status = 200,
                            res_json = Inr \<lparr> as_T = new_nda, detail_field = None \<rparr> \<rparr>)"

text \<open>A body that holds the score and nothing else, and a complete report.\<close>

definition scored_report :: jsval where
  "scored_report = JObj [(''module_scores'', JObj [(''final_viability_score'', JNum 72.5)])]"


text \<open>No stored evaluation: 404 on the read, the report on the POST.\<close>

definition evaluating_net :: "jsval network" where
  "evaluating_net history req =
     (if req_method req = Some ''POST''
      then After 45000 (Responds \<lparr> res_status = 200,
                                    res_json = Inr \<lparr> as_T = scored_report,
                                                     detail_field = None \<rparr> \<rparr>)
      else After 30 (Responds \<lparr> res_status = 404,
                                 res_json = Inr \<lparr> as_T = JObj [(''detail'', JStr ''Evaluation not found'')],
                                                  detail_field = Some ''Evaluation not found'' \<rparr> \<rparr>))"


definition missing_net :: "MarketResearchRecord network" where
  "missing_net history req =
     After 30 (Responds \<lparr> res_status = 404, res_json = Inl ''Unexpected token <'' \<rparr>)"

text \<open>A network that is down, and a server that fails on the market research.\<close>

definition unreachable_net :: "jsval network" where
  "unreachable_net history req = After 3 (Unreachable ''Failed to fetch'')"

definition broken_research_net :: "MarketResearchRecord network" where
  "broken_research_net history req =
     After 30 (Responds \<lparr> res_status = 500, res_json = Inl ''Unexpected token I'' \<rparr>)"

text \<open>Sequences of clicks and settlements on the market research screen and on the legal
  screen (no documents stored; then the NDA card, the founder agreement card and the NDA
  card again are clicked while the calls are pending).\<close>

definition example_events :: "mr_event list" where
  "example_events =
     [Click ''Generate Market Research'',
      LoadSettles (Inl (ApiError 404 ''Not found'')),
      Click ''Generate Market Research'',
      Click ''Regenerate'']"

definition legal_clicks :: "legal_event list" where
  "legal_clicks =
     [DocsSettle (Inl (ApiError 404 ''No documents'')),
      CardClick ''nda'',
      CardClick ''founder_agreement'',
      CardClick ''nda'']"

section \<open>Properties of the request client\<close>

lemma fetch_abort_iff:
  "fetch reply timeoutMs = Inl abort_error \<longleftrightarrow> timer_fires_first timeoutMs reply"
  by (cases reply) (auto simp: abort_error_def split: net_outcome.splits)

lemma fetch_cases:
  "fetch reply timeoutMs =
     (if timer_fires_first timeoutMs reply then Inl abort_error
      else (case reply of
              After t (Responds res) \<Rightarrow> Inr res
            | After t (Unreachable m) \<Rightarrow> Inl (JsError ''TypeError'' m)))"
  by (cases reply) (auto split: net_outcome.splits)

text \<open>The five ways a call of \<^verbatim>\<open>request\<close> ends.\<close>

lemma request_timeout:
  assumes "timer_fires_first timeoutMs (net (sent w) (build_request path options w))"
  shows "request net path options timeoutMs w =
           (Inl timeout_error, w\<lparr>sent := sent w @ [build_request path options w]\<rparr>)"
  using assms by (simp add: request_def Let_def fetch_cases abort_error_def)

lemma request_unreachable:
  assumes "net (sent w) (build_request path options w) = After t (Unreachable m)"
    and "t < timeoutMs"
  shows "request net path options timeoutMs w =
           (Inl (JsError ''TypeError'' m), w\<lparr>sent := sent w @ [build_request path options w]\<rparr>)"
  using assms by (simp add: request_def Let_def)

lemma request_http_error:
  assumes "net (sent w) (build_request path options w) = After t (Responds res)"
    and "t < timeoutMs" and "\<not> ok res"
  shows "request net path options timeoutMs w =
           (Inl (ApiError (res_status res) (response_detail res)),
            if res_status res = 401
            then clearToken (w\<lparr>sent := sent w @ [build_request path options w]\<rparr>)
            else w\<lparr>sent := sent w @ [build_request path options w]\<rparr>)"
  using assms by (simp add: request_def Let_def)

lemma request_not_json:
  assumes "net (sent w) (build_request path options w) = After t (Responds res)"
    and "t < timeoutMs" and "ok res" and "res_json res = Inl m"
  shows "request net path options timeoutMs w =
           (Inl (JsError ''SyntaxError'' m), w\<lparr>sent := sent w @ [build_request path options w]\<rparr>)"
  using assms by (simp add: request_def Let_def)


text \<open>Every call hands exactly one request to \<^verbatim>\<open>fetch\<close>.\<close>

lemma request_sent:
  "sent (snd (request net path options timeoutMs w)) = sent w @ [build_request path options w]"
  by (auto simp: request_def Let_def clearToken_def split: sum.splits)

lemma request_timeout_iff:
  "fst (request net path options timeoutMs w) = Inl timeout_error
     \<longleftrightarrow> timer_fires_first timeoutMs (net (sent w) (build_request path options w))"
  by (cases "net (sent w) (build_request path options w)")
     (auto simp: request_def Let_def abort_error_def timeout_error_def
           split: net_outcome.splits sum.splits)

lemma base_headers_no_auth:
  assumes "\<forall>h. opt_headers options = Some h \<longrightarrow> h ''Authorization'' = None"
  shows "base_headers options ''Authorization'' = None"
  using assms by (cases "opt_headers options") (simp_all add: base_headers_def map_add_def)

lemma build_headers_no_token:
  assumes "getToken w = None"
  shows "build_headers options w = base_headers options"
  using assms by (simp add: build_headers_def Let_def)

subsection \<open>Timeout\<close>

text \<open>
  Claim C6. For every call of the request client with budget \<open>timeoutMs\<close>: if the budget
  elapses before the network has answered, the pending \<^verbatim>\<open>fetch\<close> is aborted and the
  timeout error is thrown (the request still counts as sent). That error is not an
  \<^verbatim>\<open>ApiError\<close>, and it is thrown in no other situation: a call throws it exactly when its
  timer fired first, so a transport failure (\<^verbatim>\<open>TypeError\<close>) and an HTTP error never
  coincide with it. The exported operations use the default budget of 120000 ms.
\<close>

theorem C6_timeout_error:
  assumes "timer_fires_first timeoutMs (net (sent w) (build_request path options w))"
  shows "fetch (net (sent w) (build_request path options w)) timeoutMs = Inl abort_error
       \<and> request net path options timeoutMs w =
           (Inl timeout_error, w\<lparr>sent := sent w @ [build_request path options w]\<rparr>)
       \<and> \<not> instanceof_ApiError timeout_error
       \<and> (\<forall>net' path' options' t' w'.
             (fst (request net' path' options' t' w') = Inl timeout_error)
               = timer_fires_first t' (net' (sent w') (build_request path' options' w')))
       \<and> (\<forall>nm wm.
             timer_fires_first 120000 (nm (sent wm) (build_request ''/auth/me'' no_options wm))
               \<longrightarrow> fst (getMe nm wm) = Inl timeout_error)"
proof -
  have aborted: "fetch (net (sent w) (build_request path options w)) timeoutMs = Inl abort_error"
    using assms by (simp add: fetch_abort_iff)
  have thrown: "request net path options timeoutMs w =
      (Inl timeout_error, w\<lparr>sent := sent w @ [build_request path options w]\<rparr>)"
    using assms by (rule request_timeout)
  have not_http: "\<not> instanceof_ApiError timeout_error"
    by (simp add: timeout_error_def)
  have only_then: "\<forall>net' path' options' t' w'.
      (fst (request net' path' options' t' w') = Inl timeout_error)
        = timer_fires_first t' (net' (sent w') (build_request path' options' w'))"
    by (simp add: request_timeout_iff)
  have by_default: "\<forall>nm wm.
      timer_fires_first 120000 (nm (sent wm) (build_request ''/auth/me'' no_options wm))
        \<longrightarrow> fst (getMe nm wm) = Inl timeout_error"
    by (simp add: getMe_def default_timeoutMs_def request_timeout_iff)
  show ?thesis
    by (intro conjI; fact)
qed

theorem C6_timeout_error_witness:
  "timer_fires_first 120000
     (slow_net (sent example_world)
        (build_request ''/ideas/abc123/evaluation'' no_options example_world))
   \<and> fst (request slow_net ''/ideas/abc123/evaluation'' no_options 120000 example_world)
       = Inl timeout_error
   \<and> fst (getMe stalled_net example_world) = Inl timeout_error"
proof -
  have late: "timer_fires_first 120000 (slow_net (sent example_world)
      (build_request ''/ideas/abc123/evaluation'' no_options example_world))"
    by (simp add: slow_net_def)
  have never: "timer_fires_first 120000 (stalled_net (sent example_world)
      (build_request ''/auth/me'' no_options example_world))"
    by (simp add: stalled_net_def)
  note c = C6_timeout_error[of 120000 slow_net example_world "''/ideas/abc123/evaluation''"
             no_options, OF late]
  have thrown: "request slow_net ''/ideas/abc123/evaluation'' no_options 120000 example_world =
           (Inl timeout_error, example_world\<lparr>sent := sent example_world @
              [build_request ''/ideas/abc123/evaluation'' no_options example_world]\<rparr>)"
    by (rule conjunct1[OF conjunct2[OF c]])
  have by_default: "\<forall>nm wm.
      timer_fires_first 120000 (nm (sent wm) (build_request ''/auth/me'' no_options wm))
        \<longrightarrow> fst (getMe nm wm) = Inl timeout_error"
    by (rule conjunct2[OF conjunct2[OF conjunct2[OF conjunct2[OF c]]]])
  have me: "fst (getMe stalled_net example_world) = Inl timeout_error"
    using by_default never by blast
  show ?thesis
    using late thrown me by simp
qed

subsection \<open>Status 401\<close>

text \<open>
  Claim C3. For every call of the request client: if the server answers in time with status
  401, the call throws the \<^verbatim>\<open>ApiError\<close> of status 401 and leaves no token in the
  storage; hence the request built by any following call (one whose caller passes no
  \<^verbatim>\<open>Authorization\<close> header of its own, as none of the exported operations does)
  carries no \<^verbatim>\<open>Authorization\<close> header.
\<close>

theorem C3_unauthorized_clears_token:
  assumes "net (sent w) (build_request path options w) = After t (Responds res)"
    and "t < timeoutMs"
    and "res_status res = 401"
  shows "fst (request net path options timeoutMs w) = Inl (ApiError 401 (response_detail res))
       \<and> getToken (snd (request net path options timeoutMs w)) = None
       \<and> (\<forall>net' path' options' t'.
            (\<forall>h. opt_headers options' = Some h \<longrightarrow> h ''Authorization'' = None) \<longrightarrow>
            req_headers (last (sent (snd (request (net' :: 'a network) path' options' t'
                              (snd (request net path options timeoutMs w))))))
              ''Authorization'' = None)"
proof -
  let ?w1 = "w\<lparr>sent := sent w @ [build_request path options w]\<rparr>"
  have not_ok: "\<not> ok res"
    using assms(3) by (simp add: ok_def)
  have result: "request net path options timeoutMs w =
      (Inl (ApiError 401 (response_detail res)), clearToken ?w1)"
    using request_http_error[where net=net and w=w and path=path and options=options,
            OF assms(1,2) not_ok] assms(3)
    by simp
  have cleared: "getToken (clearToken ?w1) = None"
    by (simp add: getToken_def clearToken_def)
  have next_call: "\<forall>net' path' options' t'.
      (\<forall>h. opt_headers options' = Some h \<longrightarrow> h ''Authorization'' = None) \<longrightarrow>
      req_headers (last (sent (snd (request (net' :: 'a network) path' options' t'
                                      (clearToken ?w1)))))
        ''Authorization'' = None"
    using cleared
    by (simp add: request_sent build_request_def build_headers_no_token base_headers_no_auth)
  show ?thesis
    using result cleared next_call by simp
qed

theorem C3_unauthorized_clears_token_witness:
  "getToken example_world = Some ''old-token''
   \<and> fst (request expired_net ''/auth/me'' no_options 120000 example_world)
       = Inl (ApiError 401 ''Request failed with status 401'')
   \<and> getToken (snd (request expired_net ''/auth/me'' no_options 120000 example_world)) = None
   \<and> req_headers (last (sent (snd (request expired_net ''/auth/dashboard'' no_options 120000
        (snd (request expired_net ''/auth/me'' no_options 120000 example_world))))))
        ''Authorization'' = None"
proof -
  have reply: "expired_net (sent example_world)
        (build_request ''/auth/me'' no_options example_world)
      = After 5 (Responds \<lparr> res_status = 401, res_json = Inl ''Unexpected token <'' \<rparr>)"
    by (simp add: expired_net_def)
  have quick: "(5::nat) < 120000"
    by simp
  have status: "res_status \<lparr> res_status = 401, res_json = Inl ''Unexpected token <'' \<rparr> = 401"
    by simp
  have plain: "\<forall>h. opt_headers no_options = Some h \<longrightarrow> h ''Authorization'' = None"
    by (simp add: no_options_def)
  note c = C3_unauthorized_clears_token[where net=expired_net and w=example_world
             and path="''/auth/me''" and options=no_options, OF reply quick status]
  have thrown: "fst (request expired_net ''/auth/me'' no_options 120000 example_world)
       = Inl (ApiError 401 ''Request failed with status 401'')"
  proof -
    have "response_detail \<lparr> res_status = 401, res_json = Inl ''Unexpected token <'' \<rparr>
        = ''Request failed with status 401''"
      by (simp add: response_detail_def default_detail_def show_nat.simps)
    with conjunct1[OF c] show ?thesis by simp
  qed
  have cleared: "getToken (snd (request expired_net ''/auth/me'' no_options 120000
       example_world)) = None"
    by (rule conjunct1[OF conjunct2[OF c]])
  have next_call: "req_headers (last (sent (snd (request expired_net ''/auth/dashboard''
        no_options 120000
        (snd (request expired_net ''/auth/me'' no_options 120000 example_world))))))
        ''Authorization'' = None"
    using c plain by blast
  show ?thesis
    using thrown cleared next_call by (simp add: example_world_def getToken_def)
qed

subsection \<open>Login\<close>

text \<open>
  Claim C10, as stated, fails: a login that is refused with status 401 throws, and the
  token that was stored before is gone (the request client clears it on every 401).
\<close>

theorem C10_login_unauthorized_counterexample:
  "getToken example_world = Some ''old-token''
   \<and> fst (login rejecting_net ''ann@example.org'' ''wrong'' example_world)
        = Inl (ApiError 401 ''Request failed with status 401'')
   \<and> getToken (snd (login rejecting_net ''ann@example.org'' ''wrong'' example_world)) = None"
  by (simp add: example_world_def rejecting_net_def login_def request_def Let_def
        ok_def response_detail_def default_detail_def show_nat.simps getToken_def clearToken_def
        default_timeoutMs_def)

text \<open>
  Claim C10, amended. \<^verbatim>\<open>login\<close> writes the token only after the request has succeeded:
  when the login request throws, the storage is as before, except that an error of status
  401 has removed the stored token; on success the stored token is the \<^verbatim>\<open>access_token\<close>
  of the response.
\<close>

theorem C10_login_token_storage:
  "(\<forall>err. fst (login net em password w) = Inl err \<longrightarrow>
       localStorage (snd (login net em password w)) =
         (if error_status err = Some 401 then (localStorage w)(TOKEN_KEY := None)
          else localStorage w))
   \<and> (\<forall>data. fst (login net em password w) = Inr data \<longrightarrow>
         localStorage (snd (login net em password w)) =
           (localStorage w)(TOKEN_KEY \<mapsto> access_token data)
         \<and> getToken (snd (login net em password w)) = Some (access_token data))"
  by (cases "net (sent w) (build_request ''/auth/login''
              (post_options (Some (JObj [(''email'', JStr em), (''password'', JStr password)]))) w)")
     (auto simp: login_def request_def Let_def clearToken_def setToken_def getToken_def
           timeout_error_def abort_error_def
           split: net_outcome.splits sum.splits prod.splits if_splits)

theorem C10_login_token_storage_witness:
  "localStorage (snd (login down_net ''ann@example.org'' ''pw'' example_world))
     = localStorage example_world
   \<and> getToken (snd (login granting_net ''ann@example.org'' ''pw'' example_world))
       = Some ''fresh-token''"
proof -
  have failed: "fst (login down_net ''ann@example.org'' ''pw'' example_world)
      = Inl (JsError ''TypeError'' ''Failed to fetch'')"
    by (simp add: login_def request_def Let_def down_net_def default_timeoutMs_def)
  have granted: "fst (login granting_net ''ann@example.org'' ''pw'' example_world)
      = Inr example_auth"
    by (simp add: login_def request_def Let_def granting_net_def default_timeoutMs_def ok_def)
  from C10_login_token_storage[of down_net "''ann@example.org''" "''pw''" example_world]
       C10_login_token_storage[of granting_net "''ann@example.org''" "''pw''" example_world]
       failed granted
  show ?thesis
    by (simp add: example_auth_def)
qed


section \<open>Properties of the session context and the route guard\<close>

text \<open>
  Claim C7. After a call of \<^verbatim>\<open>refresh\<close> has settled, \<^verbatim>\<open>loading\<close> is false on every
  branch. If no token is stored (or the stored token is the empty string), the user is
  \<^verbatim>\<open>null\<close> and nothing is sent: the browser state is untouched. If a token is stored and
  the who-am-I call fails, the user is \<^verbatim>\<open>null\<close> and the token is removed. If the call
  succeeds, the user is the returned snapshot.
\<close>

theorem C7_refresh_settles:
  "loading (fst (refresh net s w)) = False
   \<and> (\<not> token_truthy (getToken w) \<longrightarrow>
         user (fst (refresh net s w)) = None \<and> snd (refresh net s w) = w)
   \<and> (token_truthy (getToken w) \<longrightarrow>
         (\<forall>err. fst (getMe net w) = Inl err \<longrightarrow>
            user (fst (refresh net s w)) = None
            \<and> getToken (snd (refresh net s w)) = None)
         \<and> (\<forall>me. fst (getMe net w) = Inr me \<longrightarrow>
              user (fst (refresh net s w)) = Some me
              \<and> snd (refresh net s w) = snd (getMe net w)))"
  by (cases "getMe net w"; cases "fst (getMe net w)")
     (auto simp: refresh_def Let_def getToken_def clearToken_def)

theorem C7_refresh_settles_witness:
  "fst (refresh profile_net auth_initial fresh_world)
      = \<lparr> user = None, loading = False, mounted = False \<rparr>
   \<and> sent (snd (refresh profile_net auth_initial fresh_world)) = []
   \<and> fst (refresh profile_net auth_initial example_world)
      = \<lparr> user = Some example_user, loading = False, mounted = False \<rparr>
   \<and> fst (refresh expired_net auth_initial example_world)
      = \<lparr> user = None, loading = False, mounted = False \<rparr>
   \<and> getToken (snd (refresh expired_net auth_initial example_world)) = None"
proof -
  have absent: "\<not> token_truthy (getToken fresh_world)"
    by (simp add: fresh_world_def getToken_def)
  have present: "token_truthy (getToken example_world)"
    by (simp add: example_world_def getToken_def)
  have me: "fst (getMe profile_net example_world) = Inr example_user"
    by (simp add: getMe_def request_def Let_def profile_net_def default_timeoutMs_def ok_def)
  have refused: "fst (getMe expired_net example_world)
      = Inl (ApiError 401 (default_detail 401))"
    by (simp add: getMe_def request_def Let_def expired_net_def default_timeoutMs_def ok_def
          response_detail_def)
  note a = C7_refresh_settles[of profile_net auth_initial fresh_world]
  note b = C7_refresh_settles[of profile_net auth_initial example_world]
  note c = C7_refresh_settles[of expired_net auth_initial example_world]
  have 1: "loading (fst (refresh profile_net auth_initial fresh_world)) = False"
     "user (fst (refresh profile_net auth_initial fresh_world)) = None"
     "snd (refresh profile_net auth_initial fresh_world) = fresh_world"
    using a absent by simp_all
  have 2: "loading (fst (refresh profile_net auth_initial example_world)) = False"
     "user (fst (refresh profile_net auth_initial example_world)) = Some example_user"
    using b present me by simp_all
  have 3: "loading (fst (refresh expired_net auth_initial example_world)) = False"
     "user (fst (refresh expired_net auth_initial example_world)) = None"
     "getToken (snd (refresh expired_net auth_initial example_world)) = None"
    using c present refused by simp_all
  have m: "mounted (fst (refresh n auth_initial ww)) = False" for n ww
    by (auto simp: refresh_def Let_def auth_initial_def split: prod.splits sum.splits)
  have eq: "st = \<lparr> user = user st, loading = loading st, mounted = mounted st \<rparr>"
    for st :: auth_state
    by simp
  show ?thesis
    using 1 2 3 m
      eq[of "fst (refresh profile_net auth_initial fresh_world)"]
      eq[of "fst (refresh profile_net auth_initial example_world)"]
      eq[of "fst (refresh expired_net auth_initial example_world)"]
    by (simp add: fresh_world_def)
qed


text \<open>
  Claim C8. For every session state: while \<^verbatim>\<open>loading\<close> holds, \<^verbatim>\<open>RouteGuard\<close> renders the
  placeholder and does not redirect. Once \<^verbatim>\<open>loading\<close> is false it renders its children
  exactly when the user is not \<^verbatim>\<open>null\<close> (and then does not redirect); otherwise it
  renders nothing and replaces the route by the login page.
\<close>

theorem C8_route_guard:
  "(loading auth \<longrightarrow>
      rendered (RouteGuard auth children) = Placeholder
      \<and> replaced (RouteGuard auth children) = None)
   \<and> (\<not> loading auth \<longrightarrow>
        ((rendered (RouteGuard auth children) = Children children) = (user auth \<noteq> None))
        \<and> (user auth \<noteq> None \<longrightarrow> replaced (RouteGuard auth children) = None)
        \<and> (user auth = None \<longrightarrow>
              rendered (RouteGuard auth children) = Null
              \<and> replaced (RouteGuard auth children) = Some ''/auth/login''))"
  by (simp add: RouteGuard_def)

theorem C8_route_guard_witness:
  "RouteGuard auth_initial ''dashboard'' = \<lparr> rendered = Placeholder, replaced = None \<rparr>
   \<and> RouteGuard (fst (refresh profile_net auth_initial fresh_world)) ''dashboard''
       = \<lparr> rendered = Null, replaced = Some ''/auth/login'' \<rparr>
   \<and> RouteGuard (fst (refresh profile_net auth_initial example_world)) ''dashboard''
       = \<lparr> rendered = Children ''dashboard'', replaced = None \<rparr>"
proof -
  have s0: "loading auth_initial"
    by (simp add: auth_initial_def)
  have s1: "\<not> loading (fst (refresh profile_net auth_initial fresh_world))"
           "user (fst (refresh profile_net auth_initial fresh_world)) = None"
    by (simp_all add: refresh_def fresh_world_def getToken_def)
  have s2: "\<not> loading (fst (refresh profile_net auth_initial example_world))"
           "user (fst (refresh profile_net auth_initial example_world)) \<noteq> None"
    by (simp_all add: refresh_def example_world_def getToken_def getMe_def request_def Let_def
          profile_net_def default_timeoutMs_def ok_def)
  have eq: "g = \<lparr> rendered = rendered g, replaced = replaced g \<rparr>"
    for g :: "string guard_output"
    by simp
  from C8_route_guard[of auth_initial "''dashboard''"]
       C8_route_guard[of "fst (refresh profile_net auth_initial fresh_world)" "''dashboard''"]
       C8_route_guard[of "fst (refresh profile_net auth_initial example_world)" "''dashboard''"]
       s0 s1 s2
  show ?thesis
    using eq[of "RouteGuard auth_initial ''dashboard''"]
      eq[of "RouteGuard (fst (refresh profile_net auth_initial fresh_world)) ''dashboard''"]
      eq[of "RouteGuard (fst (refresh profile_net auth_initial example_world)) ''dashboard''"]
    by simp
qed


section \<open>Properties of the evaluation screen\<close>




section \<open>Properties of the legal documents screen\<close>

lemma filter_same_type:
  "filter (\<lambda>d. document_type d = document_type result) (replace_document result prev) = [result]"
  by (induction prev) (simp_all add: replace_document_def)

lemma filter_other_types:
  "filter (\<lambda>d. document_type d \<noteq> document_type result) (replace_document result prev)
     = filter (\<lambda>d. document_type d \<noteq> document_type result) prev"
  by (simp add: replace_document_def)

lemma distinct_replace_document:
  assumes "distinct (map document_type prev)"
  shows "distinct (map document_type (replace_document result prev))"
  using assms by (auto simp: replace_document_def distinct_map_filter)

text \<open>
  Claim C9. After a successful generate call, the document list holds exactly one record
  of the returned record's document type, the returned one; the records of the other
  types are kept, in their order; and a list with at most one record per type stays so.
  The list is empty at first, and loading stores the list the server sends (or the empty
  list), so it has at most one record per type whenever the server's list has.
\<close>

theorem C9_legal_documents_replace:
  assumes "fst (generateLegalDocument net ideaId \<lparr> glr_document_type = key \<rparr> w) = Inr result"
  shows "(let docs' = documents (fst (legal_handleGenerate net ideaId key s w))
          in filter (\<lambda>d. document_type d = document_type result) docs' = [result]
             \<and> filter (\<lambda>d. document_type d \<noteq> document_type result) docs'
                 = filter (\<lambda>d. document_type d \<noteq> document_type result) (documents s)
             \<and> (distinct (map document_type (documents s))
                  \<longrightarrow> distinct (map document_type docs')))
       \<and> distinct (map document_type (documents legal_initial))
       \<and> (\<forall>r. distinct (map document_type (documents s))
              \<and> (\<forall>res. r = Inr res \<longrightarrow>
                     distinct (map document_type
                                (case records res of Some rs \<Rightarrow> rs | None \<Rightarrow> [])))
              \<longrightarrow> distinct (map document_type (documents (fetchDocs_settle r s))))"
proof -
  have "documents (fst (legal_handleGenerate net ideaId key s w))
      = replace_document result (documents s)"
    using assms
    by (cases "generateLegalDocument net ideaId \<lparr> glr_document_type = key \<rparr> w")
       (simp add: legal_handleGenerate_def legal_handleGenerate_settle_def
          legal_handleGenerate_begin_def)
  then have generate: "let docs' = documents (fst (legal_handleGenerate net ideaId key s w))
          in filter (\<lambda>d. document_type d = document_type result) docs' = [result]
             \<and> filter (\<lambda>d. document_type d \<noteq> document_type result) docs'
                 = filter (\<lambda>d. document_type d \<noteq> document_type result) (documents s)
             \<and> (distinct (map document_type (documents s))
                  \<longrightarrow> distinct (map document_type docs'))"
    by (simp add: Let_def filter_same_type filter_other_types distinct_replace_document)
  have initially: "distinct (map document_type (documents legal_initial))"
    by (simp add: legal_initial_def)
  have loaded: "\<forall>r. distinct (map document_type (documents s))
              \<and> (\<forall>res. r = Inr res \<longrightarrow>
                     distinct (map document_type
                                (case records res of Some rs \<Rightarrow> rs | None \<Rightarrow> [])))
              \<longrightarrow> distinct (map document_type (documents (fetchDocs_settle r s)))"
    by (auto simp: fetchDocs_settle_def split: sum.splits)
  show ?thesis
    using generate initially loaded by (intro conjI)
qed

theorem C9_legal_documents_replace_witness:
  "documents (fst (legal_handleGenerate drafting_net ''abc123'' ''nda''
      (legal_initial\<lparr>documents := [old_nda, old_privacy]\<rparr>) example_world))
     = [new_nda, old_privacy]"
proof -
  have generated: "fst (generateLegalDocument drafting_net ''abc123''
       \<lparr> glr_document_type = ''nda'' \<rparr> example_world) = Inr new_nda"
    by (simp add: generateLegalDocument_def request_def Let_def drafting_net_def
          default_timeoutMs_def ok_def)
  have d: "distinct (map document_type [old_nda, old_privacy])"
    by (simp add: old_nda_def old_privacy_def)
  from conjunct1[OF C9_legal_documents_replace[OF generated,
         of "legal_initial\<lparr>documents := [old_nda, old_privacy]\<rparr>"]] d
  have "filter (\<lambda>d. document_type d = ''nda'')
          (documents (fst (legal_handleGenerate drafting_net ''abc123'' ''nda''
             (legal_initial\<lparr>documents := [old_nda, old_privacy]\<rparr>) example_world)))
         = [new_nda]"
    by (simp add: Let_def new_nda_def)
  then show ?thesis
    by (simp add: legal_handleGenerate_def legal_handleGenerate_settle_def
          legal_handleGenerate_begin_def Let_def generateLegalDocument_def request_def
          drafting_net_def default_timeoutMs_def ok_def replace_document_def
          new_nda_def old_nda_def old_privacy_def)
qed



section \<open>Properties of the fetch-or-generate runs\<close>

lemma build_request_sent [simp]:
  "build_request path options (w\<lparr>sent := xs\<rparr>) = build_request path options w"
  by (simp add: build_request_def build_headers_def API_BASE_URL_def getToken_def)

lemma request_storage:
  "localStorage (snd (request net path options timeoutMs w)) =
     (if error_status (projl (fst (request net path options timeoutMs w))) = Some 401
         \<and> isl (fst (request net path options timeoutMs w))
      then (localStorage w)(TOKEN_KEY := None) else localStorage w)"
  by (cases "net (sent w) (build_request path options w)")
     (auto simp: request_def Let_def clearToken_def timeout_error_def abort_error_def
           split: net_outcome.splits sum.splits)

lemma request_env:
  "NEXT_PUBLIC_API_URL (snd (request net path options timeoutMs w)) = NEXT_PUBLIC_API_URL w"
  by (auto simp: request_def Let_def clearToken_def split: sum.splits)

lemma build_request_cong:
  assumes "localStorage w' = localStorage w" and "NEXT_PUBLIC_API_URL w' = NEXT_PUBLIC_API_URL w"
  shows "build_request path options w' = build_request path options w"
  using assms by (simp add: build_request_def build_headers_def API_BASE_URL_def getToken_def)

lemma request_then_build:
  assumes "fst (request net path options timeoutMs w) = Inl err" and "error_status err \<noteq> Some 401"
  shows "build_request path' options' (snd (request net path options timeoutMs w))
           = build_request path' options' w"
  using assms by (intro build_request_cong) (simp_all add: request_storage request_env)


lemma load_or_evaluate_sent_404:
  assumes "fst (getEvaluation net ideaId w) = Inl (ApiError 404 d)"
  shows "load_or_evaluate net ideaId w
           = evaluateIdea net ideaId (snd (getEvaluation net ideaId w))"
    and "sent (snd (load_or_evaluate net ideaId w))
           = sent w @ [build_request (''/ideas/'' @ ideaId @ ''/evaluation'') no_options w,
                       build_request (''/ideas/'' @ ideaId @ ''/evaluate'') (post_options None) w]"
proof -
  show a: "load_or_evaluate net ideaId w
           = evaluateIdea net ideaId (snd (getEvaluation net ideaId w))"
    using assms by (cases "getEvaluation net ideaId w") (simp add: load_or_evaluate_def)
  have "build_request (''/ideas/'' @ ideaId @ ''/evaluate'') (post_options None)
          (snd (getEvaluation net ideaId w))
        = build_request (''/ideas/'' @ ideaId @ ''/evaluate'') (post_options None) w"
  proof -
    have e: "error_status (ApiError 404 d) \<noteq> Some 401"
      by simp
    show ?thesis
      using assms unfolding getEvaluation_def by (rule request_then_build[OF _ e])
  qed
  then show "sent (snd (load_or_evaluate net ideaId w))
           = sent w @ [build_request (''/ideas/'' @ ideaId @ ''/evaluation'') no_options w,
                       build_request (''/ideas/'' @ ideaId @ ''/evaluate'') (post_options None) w]"
    unfolding a by (simp add: evaluateIdea_def getEvaluation_def request_sent)
qed

lemma load_or_evaluate_other:
  assumes "fst (getEvaluation net ideaId w) = Inl err" and "error_status err \<noteq> Some 404"
  shows "load_or_evaluate net ideaId w = (Inl err, snd (getEvaluation net ideaId w))"
    and "sent (snd (load_or_evaluate net ideaId w))
           = sent w @ [build_request (''/ideas/'' @ ideaId @ ''/evaluation'') no_options w]"
proof -
  show a: "load_or_evaluate net ideaId w = (Inl err, snd (getEvaluation net ideaId w))"
    using assms by (cases "getEvaluation net ideaId w") (auto simp: load_or_evaluate_def)
  show "sent (snd (load_or_evaluate net ideaId w))
           = sent w @ [build_request (''/ideas/'' @ ideaId @ ''/evaluation'') no_options w]"
    unfolding a by (simp add: getEvaluation_def request_sent)
qed

lemma run_world: "snd (run net ideaId active s w) = snd (load_or_evaluate net ideaId w)"
  by (cases "load_or_evaluate net ideaId w")
     (auto simp: run_def Let_def split: sum.splits)

lemma run_status:
  "active \<Longrightarrow> ev_status (fst (run net ideaId active s w)) =
     (case fst (load_or_evaluate net ideaId w) of
        Inr data \<Rightarrow> if invalid_report data then EvError else EvSuccess
      | Inl err \<Rightarrow> EvError)"
  by (cases "load_or_evaluate net ideaId w")
     (auto simp: run_def Let_def split: sum.splits)







lemma load_world: "snd (load net ideaId active s w) = snd (getMarketResearchByIdea net ideaId w)"
  by (cases "getMarketResearchByIdea net ideaId w") (simp add: load_def)

lemma load_state:
  "fst (load net ideaId active s w)
     = load_settle active (fst (getMarketResearchByIdea net ideaId w)) (load_begin s)"
  by (cases "getMarketResearchByIdea net ideaId w") (simp add: load_def)

text \<open>
  Claim C1, as stated for every agent kind, fails on the market research screen: a 404 on
  the read is followed by no generate call at all, and the screen goes to the idle state,
  where it offers a button.
\<close>

theorem C1_market_research_404_counterexample:
  "fst (getMarketResearchByIdea missing_net ''abc123'' example_world)
      = Inl (ApiError 404 ''Request failed with status 404'')
   \<and> status (fst (load missing_net ''abc123'' True mr_initial example_world)) = Idle
   \<and> map req_method (sent (snd (load missing_net ''abc123'' True mr_initial example_world)))
       = [None]"
  by (simp add: load_def load_begin_def load_settle_def mr_initial_def
        getMarketResearchByIdea_def request_def Let_def missing_net_def ok_def
        default_timeoutMs_def response_detail_def default_detail_def show_nat.simps
        example_world_def build_request_def no_options_def)


text \<open>
  Claim C1, amended. On the evaluation screen, a read that fails with HTTP 404 is followed
  by exactly one generate call (the POST) before \<^verbatim>\<open>run\<close> settles; a screen that is still
  mounted then is in the success state if the generate call returned a report that passes
  the shape test, and in the error state otherwise. A read that fails in any other way is
  followed by no further request, and the mounted screen is in the error state. On the
  market research screen \<^verbatim>\<open>load\<close> sends the read and nothing else: after a 404 the
  mounted screen is idle, after any other failure it is in the error state.
\<close>

theorem C1_read_then_generate:
  "(\<forall>d. fst (getEvaluation net ideaId w) = Inl (ApiError 404 d) \<longrightarrow>
      sent (snd (run net ideaId active s w))
        = sent w @ [build_request (''/ideas/'' @ ideaId @ ''/evaluation'') no_options w,
                    build_request (''/ideas/'' @ ideaId @ ''/evaluate'') (post_options None) w]
      \<and> (active \<longrightarrow>
            ev_status (fst (run net ideaId active s w))
              = (case fst (evaluateIdea net ideaId (snd (getEvaluation net ideaId w))) of
                   Inr data \<Rightarrow> if invalid_report data then EvError else EvSuccess
                 | Inl err \<Rightarrow> EvError)))
   \<and> (\<forall>err. fst (getEvaluation net ideaId w) = Inl err \<and> error_status err \<noteq> Some 404 \<longrightarrow>
        sent (snd (run net ideaId active s w))
          = sent w @ [build_request (''/ideas/'' @ ideaId @ ''/evaluation'') no_options w]
        \<and> (active \<longrightarrow> ev_status (fst (run net ideaId active s w)) = EvError))
   \<and> req_method (build_request (''/ideas/'' @ ideaId @ ''/evaluation'') no_options w) = None
   \<and> req_method (build_request (''/ideas/'' @ ideaId @ ''/evaluate'') (post_options None) w)
        = Some ''POST''
   \<and> sent (snd (load mnet ideaId active ms w))
        = sent w @ [build_request (''/market-research/idea/'' @ ideaId) no_options w]
   \<and> req_method (build_request (''/market-research/idea/'' @ ideaId) no_options w) = None
   \<and> (\<forall>d. fst (getMarketResearchByIdea mnet ideaId w) = Inl (ApiError 404 d) \<and> active \<longrightarrow>
         status (fst (load mnet ideaId active ms w)) = Idle)
   \<and> (\<forall>err. fst (getMarketResearchByIdea mnet ideaId w) = Inl err
             \<and> error_status err \<noteq> Some 404 \<and> active \<longrightarrow>
         status (fst (load mnet ideaId active ms w)) = Error)"
proof -
  have a: "\<forall>d. fst (getEvaluation net ideaId w) = Inl (ApiError 404 d) \<longrightarrow>
      sent (snd (run net ideaId active s w))
        = sent w @ [build_request (''/ideas/'' @ ideaId @ ''/evaluation'') no_options w,
                    build_request (''/ideas/'' @ ideaId @ ''/evaluate'') (post_options None) w]
      \<and> (active \<longrightarrow>
            ev_status (fst (run net ideaId active s w))
              = (case fst (evaluateIdea net ideaId (snd (getEvaluation net ideaId w))) of
                   Inr data \<Rightarrow> if invalid_report data then EvError else EvSuccess
                 | Inl err \<Rightarrow> EvError))"
  proof (intro allI impI)
    fix d
    assume h: "fst (getEvaluation net ideaId w) = Inl (ApiError 404 d)"
    have log: "sent (snd (run net ideaId active s w))
        = sent w @ [build_request (''/ideas/'' @ ideaId @ ''/evaluation'') no_options w,
                    build_request (''/ideas/'' @ ideaId @ ''/evaluate'') (post_options None) w]"
      unfolding run_world by (rule load_or_evaluate_sent_404(2)[OF h])
    have st: "active \<longrightarrow>
            ev_status (fst (run net ideaId active s w))
              = (case fst (evaluateIdea net ideaId (snd (getEvaluation net ideaId w))) of
                   Inr data \<Rightarrow> if invalid_report data then EvError else EvSuccess
                 | Inl err \<Rightarrow> EvError)"
      using run_status[of active net ideaId s w]
      unfolding load_or_evaluate_sent_404(1)[OF h] by blast
    show "sent (snd (run net ideaId active s w))
        = sent w @ [build_request (''/ideas/'' @ ideaId @ ''/evaluation'') no_options w,
                    build_request (''/ideas/'' @ ideaId @ ''/evaluate'') (post_options None) w]
      \<and> (active \<longrightarrow>
            ev_status (fst (run net ideaId active s w))
              = (case fst (evaluateIdea net ideaId (snd (getEvaluation net ideaId w))) of
                   Inr data \<Rightarrow> if invalid_report data then EvError else EvSuccess
                 | Inl err \<Rightarrow> EvError))"
      using log st by (rule conjI)
  qed
  have b: "\<forall>err. fst (getEvaluation net ideaId w) = Inl err \<and> error_status err \<noteq> Some 404 \<longrightarrow>
        sent (snd (run net ideaId active s w))
          = sent w @ [build_request (''/ideas/'' @ ideaId @ ''/evaluation'') no_options w]
        \<and> (active \<longrightarrow> ev_status (fst (run net ideaId active s w)) = EvError)"
  proof (intro allI impI)
    fix err
    assume h: "fst (getEvaluation net ideaId w) = Inl err \<and> error_status err \<noteq> Some 404"
    note l = load_or_evaluate_other[OF conjunct1[OF h] conjunct2[OF h]]
    have log: "sent (snd (run net ideaId active s w))
          = sent w @ [build_request (''/ideas/'' @ ideaId @ ''/evaluation'') no_options w]"
      unfolding run_world by (rule l(2))
    have st: "active \<longrightarrow> ev_status (fst (run net ideaId active s w)) = EvError"
      using run_status[of active net ideaId s w] l(1) by simp
    show "sent (snd (run net ideaId active s w))
          = sent w @ [build_request (''/ideas/'' @ ideaId @ ''/evaluation'') no_options w]
        \<and> (active \<longrightarrow> ev_status (fst (run net ideaId active s w)) = EvError)"
      using log st by (rule conjI)
  qed
  have m: "req_method (build_request (''/ideas/'' @ ideaId @ ''/evaluation'') no_options w) = None"
      "req_method (build_request (''/ideas/'' @ ideaId @ ''/evaluate'') (post_options None) w)
        = Some ''POST''"
      "req_method (build_request (''/market-research/idea/'' @ ideaId) no_options w) = None"
    by (simp_all add: build_request_def no_options_def post_options_def)
  have c: "sent (snd (load mnet ideaId active ms w))
        = sent w @ [build_request (''/market-research/idea/'' @ ideaId) no_options w]"
    by (simp add: load_world getMarketResearchByIdea_def request_sent)
  have d: "\<forall>d. fst (getMarketResearchByIdea mnet ideaId w) = Inl (ApiError 404 d) \<and> active \<longrightarrow>
         status (fst (load mnet ideaId active ms w)) = Idle"
    by (simp add: load_state load_settle_def)
  have e: "\<forall>err. fst (getMarketResearchByIdea mnet ideaId w) = Inl err
             \<and> error_status err \<noteq> Some 404 \<and> active \<longrightarrow>
         status (fst (load mnet ideaId active ms w)) = Error"
    by (simp add: load_state load_settle_def)
  show ?thesis
    by (intro conjI; fact)
qed


theorem C1_read_then_generate_witness:
  "map req_method (sent (snd (run evaluating_net ''abc123'' True eval_initial example_world)))
     = [None, Some ''POST'']
   \<and> ev_status (fst (run evaluating_net ''abc123'' True eval_initial example_world)) = EvSuccess
   \<and> map req_method (sent (snd (run unreachable_net ''abc123'' True eval_initial example_world)))
     = [None]
   \<and> ev_status (fst (run unreachable_net ''abc123'' True eval_initial example_world)) = EvError
   \<and> map req_method (sent (snd (load missing_net ''abc123'' True mr_initial example_world)))
     = [None]
   \<and> status (fst (load missing_net ''abc123'' True mr_initial example_world)) = Idle
   \<and> status (fst (load broken_research_net ''abc123'' True mr_initial example_world)) = Error"
proof -
  have read404: "fst (getEvaluation evaluating_net ''abc123'' example_world)
      = Inl (ApiError 404 ''Evaluation not found'')"
    by (simp add: getEvaluation_def request_def Let_def evaluating_net_def build_request_def
          no_options_def default_timeoutMs_def ok_def response_detail_def)
  have generated: "fst (evaluateIdea evaluating_net ''abc123''
        (snd (getEvaluation evaluating_net ''abc123'' example_world))) = Inr scored_report"
    by (simp add: evaluateIdea_def request_def Let_def evaluating_net_def build_request_def
          post_options_def default_timeoutMs_def ok_def)
  have valid: "\<not> invalid_report scored_report"
    by (simp add: invalid_report_def scored_report_def)
  have down: "fst (getEvaluation unreachable_net ''abc123'' example_world)
      = Inl (JsError ''TypeError'' ''Failed to fetch'')"
    by (simp add: getEvaluation_def request_def Let_def unreachable_net_def
          default_timeoutMs_def)
  have other: "error_status (JsError ''TypeError'' ''Failed to fetch'') \<noteq> Some 404"
    by simp
  have missing: "fst (getMarketResearchByIdea missing_net ''abc123'' example_world)
      = Inl (ApiError 404 (default_detail 404))"
    by (simp add: getMarketResearchByIdea_def request_def Let_def missing_net_def
          default_timeoutMs_def ok_def response_detail_def)
  have broken: "fst (getMarketResearchByIdea broken_research_net ''abc123'' example_world)
      = Inl (ApiError 500 (default_detail 500))"
    by (simp add: getMarketResearchByIdea_def request_def Let_def broken_research_net_def
          default_timeoutMs_def ok_def response_detail_def)
  have other': "error_status (ApiError 500 (default_detail 500)) \<noteq> Some 404"
    by simp
  have yes: "True \<longrightarrow> True"
    by simp
  note a = C1_read_then_generate[of evaluating_net "''abc123''" example_world True eval_initial
              missing_net mr_initial]
  note b = C1_read_then_generate[of unreachable_net "''abc123''" example_world True eval_initial
              broken_research_net mr_initial]
  have a1: "sent (snd (run evaluating_net ''abc123'' True eval_initial example_world))
      = sent example_world
          @ [build_request (''/ideas/'' @ ''abc123'' @ ''/evaluation'') no_options example_world,
             build_request (''/ideas/'' @ ''abc123'' @ ''/evaluate'') (post_options None)
               example_world]"
    and a2: "ev_status (fst (run evaluating_net ''abc123'' True eval_initial example_world))
      = EvSuccess"
    using a read404 generated valid by simp_all
  have b1: "sent (snd (run unreachable_net ''abc123'' True eval_initial example_world))
      = sent example_world
          @ [build_request (''/ideas/'' @ ''abc123'' @ ''/evaluation'') no_options example_world]"
    and b2: "ev_status (fst (run unreachable_net ''abc123'' True eval_initial example_world))
      = EvError"
    using b down other by simp_all
  have c1': "sent (snd (load missing_net ''abc123'' True mr_initial example_world))
      = sent example_world
          @ [build_request (''/market-research/idea/'' @ ''abc123'') no_options example_world]"
    and c2': "status (fst (load missing_net ''abc123'' True mr_initial example_world)) = Idle"
    using a missing by simp_all
  have d2: "status (fst (load broken_research_net ''abc123'' True mr_initial example_world))
      = Error"
    using b broken other' by simp
  show ?thesis
    using a1 a2 b1 b2 c1' c2' d2
    by (simp add: example_world_def build_request_def no_options_def post_options_def)
qed



section \<open>Properties of the generate actions\<close>

lemma no_buttons_iff:
  "generate_buttons (MarketResearchContent_view s) = [] \<longleftrightarrow> status s = Loading \<or> status s = Generating"
  by (cases "status s"; cases "research s") (auto simp: MarketResearchContent_view_def)

lemma mr_step_exclusive:
  assumes "mr_exclusive sc"
  shows "mr_exclusive (mr_step sc e)"
proof (cases e)
  case (Click label)
  show ?thesis
  proof (cases "label \<in> set (generate_buttons (MarketResearchContent_view (ui sc)))")
    case True
    then have "generate_buttons (MarketResearchContent_view (ui sc)) \<noteq> []"
      by auto
    then have idle: "status (ui sc) \<noteq> Loading" "status (ui sc) \<noteq> Generating"
      using no_buttons_iff[of "ui sc"] by auto
    then have "loads_in_flight sc = 0" "generates_in_flight sc = 0"
      using assms by (auto simp: mr_exclusive_def)
    then show ?thesis
      using Click True by (simp add: mr_exclusive_def handleGenerate_begin_def)
  next
    case False
    then show ?thesis
      using Click assms by simp
  qed
next
  case (LoadSettles r)
  then show ?thesis
    using assms by (auto simp: mr_exclusive_def)
next
  case (GenerateSettles r)
  then show ?thesis
    using assms by (auto simp: mr_exclusive_def)
qed

lemma foldl_mr_step_exclusive:
  assumes "mr_exclusive sc"
  shows "mr_exclusive (foldl mr_step sc events)"
  using assms by (induction events arbitrary: sc) (simp_all add: mr_step_exclusive)

lemma mr_mounted_exclusive: "mr_exclusive mr_mounted"
  by (simp add: mr_exclusive_def mr_mounted_def load_begin_def mr_initial_def)

lemma handleGenerate_sent:
  "sent (snd (handleGenerate net ideaId s w))
     = sent w @ [build_request (''/market-research/generate?idea_id='' @ ideaId)
                   (post_options None) w]"
proof -
  have "snd (handleGenerate net ideaId s w) = snd (generateMarketResearch net ideaId w)"
    by (cases "generateMarketResearch net ideaId w") (simp add: handleGenerate_def)
  then show ?thesis
    unfolding generateMarketResearch_def by (simp only: request_sent)
qed

text \<open>
  The market research screen keeps its calls apart. Every invocation of
  \<^verbatim>\<open>handleGenerate\<close> sends exactly one generate call, whatever the state, but the view
  shows a button bound to it exactly when the state is neither \<^verbatim>\<open>loading\<close> nor
  \<^verbatim>\<open>generating\<close>, so in these two states a click changes nothing and starts no call.
  Hence, after any sequence of clicks and settlements since mount, at most one call (the
  read or a generate) is in flight, and while a generate call is in flight a further click
  has no effect.
\<close>

lemma market_research_exclusion:
  "sent (snd (handleGenerate net ideaId s w))
     = sent w @ [build_request (''/market-research/generate?idea_id='' @ ideaId)
                   (post_options None) w]
   \<and> (generate_buttons (MarketResearchContent_view s) = [])
       = (status s = Loading \<or> status s = Generating)
   \<and> (status (ui sc) = Loading \<or> status (ui sc) = Generating \<longrightarrow> mr_step sc (Click label) = sc)
   \<and> loads_in_flight (mr_after events) + generates_in_flight (mr_after events) \<le> 1
   \<and> (generates_in_flight (mr_after events) = 1
        \<longrightarrow> status (ui (mr_after events)) = Generating
            \<and> mr_after (events @ [Click label]) = mr_after events)"
proof -
  have quiet: "mr_step sc' (Click label) = sc'"
    if "status (ui sc') = Loading \<or> status (ui sc') = Generating" for sc'
    using that no_buttons_iff[of "ui sc'"] by simp
  have excl: "mr_exclusive (mr_after events)"
    unfolding mr_after_def by (rule foldl_mr_step_exclusive[OF mr_mounted_exclusive])
  have busy: "generates_in_flight (mr_after events) = 1
        \<longrightarrow> status (ui (mr_after events)) = Generating
            \<and> mr_after (events @ [Click label]) = mr_after events"
  proof
    assume "generates_in_flight (mr_after events) = 1"
    then have g: "status (ui (mr_after events)) = Generating"
      using excl by (simp add: mr_exclusive_def)
    then have "mr_step (mr_after events) (Click label) = mr_after events"
      using quiet by blast
    then have "mr_after (events @ [Click label]) = mr_after events"
      by (simp add: mr_after_def)
    with g show "status (ui (mr_after events)) = Generating
            \<and> mr_after (events @ [Click label]) = mr_after events"
      by simp
  qed
  show ?thesis
    using handleGenerate_sent[of net ideaId s w] no_buttons_iff[of s] quiet[of sc] excl busy
    by (simp add: mr_exclusive_def)
qed

lemma market_research_exclusion_example:
  "generates_in_flight (mr_after example_events) = 1
   \<and> status (ui (mr_after example_events)) = Generating
   \<and> mr_after (example_events @ [Click ''Regenerate'']) = mr_after example_events"
proof -
  have one: "generates_in_flight (mr_after example_events) = 1"
    by (simp add: mr_after_def example_events_def mr_mounted_def load_begin_def mr_initial_def
          load_settle_def MarketResearchContent_view_def handleGenerate_begin_def)
  from market_research_exclusion[of "research_net completed_research" "''abc123''" mr_initial
          example_world mr_mounted "''Regenerate''" example_events]
       one
  show ?thesis
    by simp
qed

text \<open>
  Claim C4: while a generate call for an idea and agent is in flight, a further load or
  regenerate action starts no network call, so at most one generate call is in flight at
  any time. The legal screen breaks this. Its busy flag \<^verbatim>\<open>generating\<close> holds one key only:
  after a click on the NDA card that card is disabled, but a click on the founder agreement
  card overwrites the flag, the NDA card is enabled again while its call is still pending,
  and a second click on it starts a second NDA call: three generate calls are in flight
  for the idea, two of them for the same document type.
\<close>

theorem C4_legal_generate_reentrant:
  "documents_in_flight (legal_after (take 2 legal_clicks)) = [''nda'']
   \<and> card_disabled (legal_ui (legal_after (take 2 legal_clicks))) ''nda'' = True
   \<and> documents_in_flight (legal_after (take 3 legal_clicks)) = [''nda'', ''founder_agreement'']
   \<and> generating (legal_ui (legal_after (take 3 legal_clicks))) = Some ''founder_agreement''
   \<and> card_disabled (legal_ui (legal_after (take 3 legal_clicks))) ''nda'' = False
   \<and> documents_in_flight (legal_after legal_clicks) = [''nda'', ''founder_agreement'', ''nda'']"
  by (simp add: legal_after_def legal_clicks_def legal_mounted_def legal_initial_def
        fetchDocs_settle_def LegalContent_view_def DOCUMENT_TYPES_def card_disabled_def
        getDocByType_def legal_handleGenerate_begin_def)

end
